theory Spec2Isabelle
  imports Complex_Main
begin

section \<open>Atomic data and simulation state\<close>

text \<open>
  The C sources index every table with an \<open>int\<close> and perform no bounds checks, so an
  array is modelled as a total function from the C index.  Indices and counters are
  mathematical integers: they count ions, levels and cells and stay far from the limits
  of a C \<open>int\<close>.  A \<open>double\<close> is modelled as a real number (rounding, infinities
  and NaN are outside the model).
\<close>

type_synonym darray = "int \<Rightarrow> real"

text \<open>The fields of \<open>ion[]\<close> that the three source files read.\<close>

record ion_rec =
  ion_g :: real
  ion_nlevels :: int
  ion_firstlevel :: int
  ion_nlte :: int
  ion_first_nlte_level :: int
  ion_first_levden :: int
  ion_macro_info :: int
  ion_has_superlevel :: int

text \<open>The fields of \<open>config[]\<close>: statistical weight, excitation energy, owning ion.\<close>

record config_rec =
  config_g :: real
  config_ex :: real
  config_nion :: int

text \<open>The fields of \<open>ele[]\<close> read by \<open>get_lte_matom_populations\<close>.\<close>

record ele_rec =
  ele_firstion :: int
  ele_nions :: int
  ele_abun :: real

text \<open>
  Process-wide tables, counters and the macros whose defining headers
  (\<open>atomic.h\<close>, \<open>python.h\<close>) are not part of the sources at hand; they are
  parameters of every operation.
\<close>

record globals =
  ion :: "int \<Rightarrow> ion_rec"
  config :: "int \<Rightarrow> config_rec"
  ele :: "int \<Rightarrow> ele_rec"
  nions :: int
  NIONS :: int
  NPLASMA :: int
  BOLTZMANN :: real
  LOWEST_SUPERLEVEL_THRESHOLD :: int
  rho2nh :: real
  geo_wcycle :: int
  geo_macro_ioniz_mode :: int

text \<open>
  \<open>copy_plasma\<close> assigns \<open>x2->partition = x1->partition\<close>, which C only accepts for
  pointers: the per-ion arrays of a cell live outside the struct and the struct holds
  their addresses.  The level densities are addressed the same way, which covers an
  array inside the struct as well as a pointer to one.  The store maps an address to the
  array found there; two different addresses are two disjoint arrays.
\<close>

type_synonym addr = nat
type_synonym store = "addr \<Rightarrow> darray"

record plasma =
  p_nwind :: int
  p_nplasma :: int
  p_ne :: real
  p_rho :: real
  p_vol :: real
  p_t_r :: real
  p_t_e :: real
  p_w :: real
  p_partition :: addr
  p_density :: addr
  p_levden :: addr

record macro =
  superlevel_lte_pops :: darray
  superlevel_threshold :: "int \<Rightarrow> int"
  superlevel_norm :: darray

section \<open>superlevel.c\<close>

definition LTE_DEP_FRAC :: real where
  "LTE_DEP_FRAC = 2"

text \<open>
  The \<open>while\<close> loop of \<open>get_superlevel_threshold\<close>.  \<open>lte_pops\<close> is
  \<open>mplasma->superlevel_lte_pops\<close> and \<open>levden\<close> is \<open>xplasma->levden\<close>.
\<close>

function threshold_loop ::
  "globals \<Rightarrow> darray \<Rightarrow> darray \<Rightarrow> real \<Rightarrow> int \<Rightarrow> int \<Rightarrow> int \<Rightarrow> int \<Rightarrow> real \<Rightarrow> int" where
  "threshold_loop G lte_pops levden ground_den ground lastden threshold n dep_coef =
     (if dep_coef < LTE_DEP_FRAC \<and> dep_coef > 1 / LTE_DEP_FRAC
         \<and> threshold - ground > LOWEST_SUPERLEVEL_THRESHOLD G
      then threshold_loop G lte_pops levden ground_den ground lastden
             (threshold - 1) (n + 1)
             (lte_pops (threshold - 1) / (levden (lastden - (n + 1)) / ground_den))
      else threshold)"
  by pat_completeness auto
termination
  by (relation "measure (\<lambda>(G, lte_pops, levden, ground_den, ground, lastden, threshold, n, dep_coef).
        nat (threshold - ground - LOWEST_SUPERLEVEL_THRESHOLD G))") auto

declare threshold_loop.simps [simp del]

text \<open>
  \<open>get_superlevel_threshold (xplasma, nion)\<close>.  The macro cell is looked up through
  the cell's own \<open>nplasma\<close> field.  The \<open>Log\<close> call only prints and is left out.
\<close>

definition get_superlevel_threshold ::
  "globals \<Rightarrow> store \<Rightarrow> (int \<Rightarrow> macro) \<Rightarrow> plasma \<Rightarrow> int \<Rightarrow> int" where
  "get_superlevel_threshold G h macromain xplasma nion =
     (let ground = ion_first_nlte_level (ion G nion);
          lastden = ion_first_levden (ion G nion) + ion_nlte (ion G nion) - 1;
          threshold = ion_nlte (ion G nion) + ground - 1
      in if geo_wcycle G = 0 then threshold
         else
           let mplasma = macromain (p_nplasma xplasma);
               levden = h (p_levden xplasma);
               ground_den = levden (ion_first_levden (ion G nion));
               dep_coef = superlevel_lte_pops mplasma threshold / (levden lastden / ground_den)
           in threshold_loop G (superlevel_lte_pops mplasma) levden ground_den ground lastden
                threshold 0 dep_coef + 1)"


text \<open>
  Messages passed to \<open>Error\<close>, one constructor per call site, carrying the
  values printed.
\<close>

datatype msg =
    Err_failed_to_choose real real int real
  | Err_not_in_superlevel int
  | Err_partition_unknown_mode int
  | Err_levels_mode int

text \<open>The cumulative-sum \<open>while\<close> loop of \<open>choose_superlevel_deactivation\<close>.\<close>

function choose_loop ::
  "globals \<Rightarrow> macro \<Rightarrow> real \<Rightarrow> int \<Rightarrow> int \<Rightarrow> real \<Rightarrow> int \<Rightarrow> real \<times> int" where
  "choose_loop G mplasma threshold ground nion run_tot n =
     (if run_tot < threshold \<and> n < ground + ion_nlte (ion G nion)
      then choose_loop G mplasma threshold ground nion
             (run_tot + superlevel_lte_pops mplasma n / config_g (config G n)) (n + 1)
      else (run_tot, n))"
  by pat_completeness auto
termination
  by (relation "measure (\<lambda>(G, mplasma, threshold, ground, nion, run_tot, n).
        nat (ground + ion_nlte (ion G nion) - n))") auto

declare choose_loop.simps [simp del]

text \<open>
  \<open>choose_superlevel_deactivation (xplasma, uplvl)\<close>.  The uniform draw
  \<open>z = (rand () + 0.5) / MAXRAND\<close> comes from the random source and is an argument.
  The result is the list of \<open>Error\<close> messages raised and the level returned.
\<close>

definition choose_superlevel_deactivation ::
  "globals \<Rightarrow> (int \<Rightarrow> macro) \<Rightarrow> real \<Rightarrow> plasma \<Rightarrow> int \<Rightarrow> msg list \<times> int" where
  "choose_superlevel_deactivation G macromain z xplasma uplvl =
     (let mplasma = macromain (p_nplasma xplasma);
          nion = config_nion (config G uplvl);
          threshold = z * superlevel_norm mplasma nion;
          ground = ion_first_nlte_level (ion G nion);
          (run_tot, n1) = choose_loop G mplasma threshold ground nion 0
                            (superlevel_threshold mplasma nion);
          n = (if n1 > superlevel_threshold mplasma nion then n1 - 1 else n1);
          e1 = (if n = ground + ion_nlte (ion G nion) + 1
                then [Err_failed_to_choose run_tot threshold
                        (superlevel_threshold mplasma nion) z]
                else []);
          e2 = (if n < superlevel_threshold mplasma nion
                then [Err_not_in_superlevel n] else [])
      in (e1 @ e2, n))"

text \<open>The loop of \<open>setup_superlevels\<close> that fills the LTE ratios to ground.\<close>

function lte_pops_loop ::
  "globals \<Rightarrow> int \<Rightarrow> real \<Rightarrow> int \<Rightarrow> int \<Rightarrow> macro \<Rightarrow> macro" where
  "lte_pops_loop G nion kt ground n mplasma =
     (if n < ground + ion_nlte (ion G nion)
      then lte_pops_loop G nion kt ground (n + 1)
             (mplasma\<lparr>superlevel_lte_pops := (superlevel_lte_pops mplasma)
                (n := (config_g (config G n) / config_g (config G ground))
                      * exp ((- config_ex (config G n) + config_ex (config G ground)) / kt))\<rparr>)
      else mplasma)"
  by pat_completeness auto
termination
  by (relation "measure (\<lambda>(G, nion, kt, ground, n, mplasma).
        nat (ground + ion_nlte (ion G nion) - n))") auto

declare lte_pops_loop.simps [simp del]

text \<open>The normalisation loop of \<open>setup_superlevels\<close>: \<open>superlevel_norm[nion] += ...\<close>.\<close>

function norm_loop :: "globals \<Rightarrow> int \<Rightarrow> int \<Rightarrow> int \<Rightarrow> macro \<Rightarrow> macro" where
  "norm_loop G nion ground n mplasma =
     (if n < ground + ion_nlte (ion G nion)
      then norm_loop G nion ground (n + 1)
             (mplasma\<lparr>superlevel_norm := (superlevel_norm mplasma)
                (nion := superlevel_norm mplasma nion
                         + superlevel_lte_pops mplasma n / config_g (config G n))\<rparr>)
      else mplasma)"
  by pat_completeness auto
termination
  by (relation "measure (\<lambda>(G, nion, ground, n, mplasma).
        nat (ground + ion_nlte (ion G nion) - n))") auto

declare norm_loop.simps [simp del]

text \<open>
  The body of the two nested \<open>for\<close> loops of \<open>setup_superlevels\<close> for one ion and one
  cell.  \<open>mplasma\<close> points into \<open>macromain\<close>, so the LTE ratios are already in
  \<open>macromain\<close> when \<open>get_superlevel_threshold\<close> reads them.
\<close>

definition setup_cell ::
  "globals \<Rightarrow> store \<Rightarrow> (int \<Rightarrow> plasma) \<Rightarrow> int \<Rightarrow> int \<Rightarrow> (int \<Rightarrow> macro) \<Rightarrow> (int \<Rightarrow> macro)" where
  "setup_cell G h plasmamain nion nplasma macromain =
     (let xplasma = plasmamain nplasma;
          mplasma = macromain nplasma;
          te = p_t_e xplasma;
          kt = BOLTZMANN G * te;
          ground = ion_first_nlte_level (ion G nion);
          mplasma1 = mplasma\<lparr>superlevel_lte_pops := (superlevel_lte_pops mplasma)(ground := 1)\<rparr>;
          mplasma2 = lte_pops_loop G nion kt ground (ground + 1) mplasma1;
          macromain2 = macromain(nplasma := mplasma2);
          thr = get_superlevel_threshold G h macromain2 xplasma nion;
          mplasma3 = (macromain2 nplasma)\<lparr>superlevel_threshold :=
                        (superlevel_threshold (macromain2 nplasma))(nion := thr)\<rparr>;
          mplasma4 = norm_loop G nion ground (superlevel_threshold mplasma3 nion) mplasma3
      in macromain2(nplasma := mplasma4))"

function setup_cells_loop ::
  "globals \<Rightarrow> store \<Rightarrow> (int \<Rightarrow> plasma) \<Rightarrow> int \<Rightarrow> int \<Rightarrow> (int \<Rightarrow> macro) \<Rightarrow> (int \<Rightarrow> macro)" where
  "setup_cells_loop G h plasmamain nion nplasma macromain =
     (if nplasma < NPLASMA G
      then setup_cells_loop G h plasmamain nion (nplasma + 1)
             (setup_cell G h plasmamain nion nplasma macromain)
      else macromain)"
  by pat_completeness auto
termination
  by (relation "measure (\<lambda>(G, h, plasmamain, nion, nplasma, macromain).
        nat (NPLASMA G - nplasma))") auto

declare setup_cells_loop.simps [simp del]

function setup_ions_loop ::
  "globals \<Rightarrow> store \<Rightarrow> (int \<Rightarrow> plasma) \<Rightarrow> int \<Rightarrow> (int \<Rightarrow> macro) \<Rightarrow> (int \<Rightarrow> macro)" where
  "setup_ions_loop G h plasmamain nion macromain =
     (if nion < NIONS G
      then setup_ions_loop G h plasmamain (nion + 1)
             (if ion_has_superlevel (ion G nion) = 1
              then setup_cells_loop G h plasmamain nion 0 macromain
              else macromain)
      else macromain)"
  by pat_completeness auto
termination
  by (relation "measure (\<lambda>(G, h, plasmamain, nion, macromain). nat (NIONS G - nion))") auto

declare setup_ions_loop.simps [simp del]

text \<open>\<open>setup_superlevels ()\<close>: the new contents of \<open>macromain\<close>.\<close>

definition setup_superlevels ::
  "globals \<Rightarrow> store \<Rightarrow> (int \<Rightarrow> plasma) \<Rightarrow> (int \<Rightarrow> macro) \<Rightarrow> (int \<Rightarrow> macro)" where
  "setup_superlevels G h plasmamain macromain = setup_ions_loop G h plasmamain 0 macromain"

section \<open>levels.c\<close>

text \<open>The mode constants of \<open>maps.h\<close>.\<close>

definition NEBULARMODE_TR :: int where "NEBULARMODE_TR = 0"
definition NEBULARMODE_TE :: int where "NEBULARMODE_TE = 1"
definition NEBULARMODE_ML93 :: int where "NEBULARMODE_ML93 = 2"
definition NEBULARMODE_NLTE_SIM :: int where "NEBULARMODE_NLTE_SIM = 3"
definition NEBULARMODE_LTE_GROUND :: int where "NEBULARMODE_LTE_GROUND = 4"

text \<open>
  A routine that calls \<open>exit\<close> yields \<open>Inl\<close> with the message given to \<open>Error\<close>,
  the exit status and the store as it is when the process ends; a routine that returns
  yields \<open>Inr\<close> with the store it leaves behind.
\<close>

type_synonym outcome = "(msg \<times> int \<times> store) + store"

text \<open>The \<open>for\<close> loop of \<open>get_boltzmann_populations\<close> over the levels above ground.\<close>

function boltzmann_loop ::
  "globals \<Rightarrow> int \<Rightarrow> real \<Rightarrow> real \<Rightarrow> real \<Rightarrow> int \<Rightarrow> real \<Rightarrow> int \<Rightarrow> int \<Rightarrow> int \<Rightarrow> darray \<Rightarrow> darray" where
  "boltzmann_loop G nion w z ground m_ground kt n m nlevden levden_array =
     (if n < ion_nlte (ion G nion)
      then boltzmann_loop G nion w z ground m_ground kt (n + 1) (m + 1) (nlevden + 1)
             (levden_array(nlevden + 1 :=
                ground * w * config_g (config G (m + 1))
                * exp ((- config_ex (config G (m + 1)) + config_ex (config G m_ground)) / kt) / z))
      else levden_array)"
  by pat_completeness auto
termination
  by (relation "measure (\<lambda>(G, nion, w, z, ground, m_ground, kt, n, m, nlevden, levden_array).
        nat (ion_nlte (ion G nion) - n))") auto

declare boltzmann_loop.simps [simp del]

text \<open>
  \<open>get_boltzmann_populations (levden_array, nion, w, t, z, nlevden)\<close>; the array
  argument is the address of the array written.
\<close>

definition get_boltzmann_populations ::
  "globals \<Rightarrow> addr \<Rightarrow> int \<Rightarrow> real \<Rightarrow> real \<Rightarrow> real \<Rightarrow> int \<Rightarrow> store \<Rightarrow> store" where
  "get_boltzmann_populations G levden_array nion w t z nlevden h =
     (let m = ion_first_nlte_level (ion G nion);
          m_ground = m;
          ground = config_g (config G m) / z;
          a = (h levden_array)(nlevden := ground);
          kt = BOLTZMANN G * t
      in h(levden_array := boltzmann_loop G nion w z ground m_ground kt 1 m nlevden a))"

text \<open>The loop of \<open>levels\<close> over all ions, with the macro-atom guard.\<close>

function levels_loop ::
  "globals \<Rightarrow> plasma \<Rightarrow> real \<Rightarrow> real \<Rightarrow> int \<Rightarrow> store \<Rightarrow> store" where
  "levels_loop G xplasma t weight nion h =
     (if nion < nions G
      then levels_loop G xplasma t weight (nion + 1)
             (if ion_nlte (ion G nion) > 0
              then (if ion_macro_info (ion G nion) = 0 \<or> geo_macro_ioniz_mode G = 0
                    then (let z = h (p_partition xplasma) nion;
                              nlevden = ion_first_levden (ion G nion)
                          in get_boltzmann_populations G (p_levden xplasma) nion weight t z
                               nlevden h)
                    else h)
              else h)
      else h)"
  by pat_completeness auto
termination
  by (relation "measure (\<lambda>(G, xplasma, t, weight, nion, h). nat (nions G - nion))") auto

declare levels_loop.simps [simp del]

text \<open>\<open>levels (xplasma, mode)\<close>.\<close>

definition levels :: "globals \<Rightarrow> plasma \<Rightarrow> int \<Rightarrow> store \<Rightarrow> outcome" where
  "levels G xplasma mode h =
     (if mode = NEBULARMODE_TR then Inr (levels_loop G xplasma (p_t_r xplasma) 1 0 h)
      else if mode = NEBULARMODE_TE then Inr (levels_loop G xplasma (p_t_e xplasma) 1 0 h)
      else if mode = NEBULARMODE_ML93
        then Inr (levels_loop G xplasma (p_t_r xplasma) (p_w xplasma) 0 h)
      else if mode = 3 then Inr (levels_loop G xplasma (p_t_e xplasma) 1 0 h)
      else if mode = 4 then Inr (levels_loop G xplasma (p_t_e xplasma) 0 0 h)
      else Inl (Err_levels_mode mode, 0, h))"

text \<open>\<open>copy_plasma (x1, x2)\<close>: the fields of \<open>x2\<close> it does not assign keep their value.\<close>

definition copy_plasma :: "plasma \<Rightarrow> plasma \<Rightarrow> plasma" where
  "copy_plasma x1 x2 =
     x2\<lparr>p_nwind := p_nwind x1, p_nplasma := p_nplasma x1, p_ne := p_ne x1,
        p_rho := p_rho x1, p_vol := p_vol x1, p_t_r := p_t_r x1, p_t_e := p_t_e x1,
        p_w := p_w x1, p_partition := p_partition x1, p_density := p_density x1\<rparr>"

section \<open>partition.c\<close>

text \<open>
  The inner \<open>for\<close> loop of \<open>partition_functions\<close>, which the source writes once for
  the detailed levels (\<open>cnt = nlevels\<close>) and once for the reduced ones (\<open>cnt = nlte\<close>).
\<close>

function pf_sum ::
  "globals \<Rightarrow> real \<Rightarrow> real \<Rightarrow> int \<Rightarrow> int \<Rightarrow> int \<Rightarrow> int \<Rightarrow> real \<Rightarrow> real" where
  "pf_sum G weight kt m_ground cnt n m z =
     (if n < cnt
      then pf_sum G weight kt m_ground cnt (n + 1) (m + 1)
             (z + weight * config_g (config G (m + 1))
                  * exp ((- config_ex (config G (m + 1)) + config_ex (config G m_ground)) / kt))
      else z)"
  by pat_completeness auto
termination
  by (relation "measure (\<lambda>(G, weight, kt, m_ground, cnt, n, m, z). nat (cnt - n))") auto

declare pf_sum.simps [simp del]

text \<open>The value \<open>z\<close> that one pass of the ion loop of \<open>partition_functions\<close> computes.\<close>

definition pf_ion :: "globals \<Rightarrow> real \<Rightarrow> real \<Rightarrow> int \<Rightarrow> real" where
  "pf_ion G weight kt nion =
     (if ion_nlevels (ion G nion) > 0
      then (let m = ion_firstlevel (ion G nion)
            in pf_sum G weight kt m (ion_nlevels (ion G nion)) 1 m (config_g (config G m)))
      else if ion_nlte (ion G nion) > 0
      then (let m = ion_first_nlte_level (ion G nion)
            in pf_sum G weight kt m (ion_nlte (ion G nion)) 1 m (config_g (config G m)))
      else ion_g (ion G nion))"

function pf_loop :: "globals \<Rightarrow> plasma \<Rightarrow> real \<Rightarrow> real \<Rightarrow> int \<Rightarrow> store \<Rightarrow> store" where
  "pf_loop G xplasma weight kt nion h =
     (if nion < nions G
      then pf_loop G xplasma weight kt (nion + 1)
             (h(p_partition xplasma := (h (p_partition xplasma))(nion := pf_ion G weight kt nion)))
      else h)"
  by pat_completeness auto
termination
  by (relation "measure (\<lambda>(G, xplasma, weight, kt, nion, h). nat (nions G - nion))") auto

declare pf_loop.simps [simp del]

text \<open>
  What \<open>partition_functions\<close> does once \<open>t\<close> and \<open>weight\<close> are chosen: the ion loop,
  then \<open>levels (xplasma, mode)\<close>.
\<close>

definition pf_body :: "globals \<Rightarrow> plasma \<Rightarrow> int \<Rightarrow> real \<Rightarrow> real \<Rightarrow> store \<Rightarrow> outcome" where
  "pf_body G xplasma mode t weight h =
     (let kt = BOLTZMANN G * t
      in levels G xplasma mode (pf_loop G xplasma weight kt 0 h))"

text \<open>\<open>partition_functions (xplasma, mode)\<close>.\<close>

definition partition_functions :: "globals \<Rightarrow> plasma \<Rightarrow> int \<Rightarrow> store \<Rightarrow> outcome" where
  "partition_functions G xplasma mode h =
     (if mode = NEBULARMODE_TR then pf_body G xplasma mode (p_t_r xplasma) 1 h
      else if mode = NEBULARMODE_TE then pf_body G xplasma mode (p_t_e xplasma) 1 h
      else if mode = NEBULARMODE_ML93 then pf_body G xplasma mode (p_t_r xplasma) (p_w xplasma) h
      else if mode = NEBULARMODE_NLTE_SIM then pf_body G xplasma mode (p_t_e xplasma) 1 h
      else if mode = NEBULARMODE_LTE_GROUND then pf_body G xplasma mode (p_t_e xplasma) 0 h
      else Inl (Err_partition_unknown_mode mode, 0, h))"

text \<open>The inner loop of \<open>partition_functions_2\<close>, again written twice in the source.\<close>

function pf2_sum ::
  "globals \<Rightarrow> real \<Rightarrow> real \<Rightarrow> int \<Rightarrow> int \<Rightarrow> int \<Rightarrow> int \<Rightarrow> real \<Rightarrow> real" where
  "pf2_sum G weight kt m_ground cnt n m z =
     (if n < cnt
      then pf2_sum G weight kt m_ground cnt (n + 1) (m + 1)
             (z + weight * config_g (config G (m + 1))
                  * exp ((- config_ex (config G (m + 1)) + config_ex (config G m_ground)) / kt))
      else z)"
  by pat_completeness auto
termination
  by (relation "measure (\<lambda>(G, weight, kt, m_ground, cnt, n, m, z). nat (cnt - n))") auto

declare pf2_sum.simps [simp del]

definition pf2_ion :: "globals \<Rightarrow> real \<Rightarrow> real \<Rightarrow> int \<Rightarrow> real" where
  "pf2_ion G weight kt nion =
     (if ion_nlevels (ion G nion) > 0
      then (let m = ion_firstlevel (ion G nion)
            in pf2_sum G weight kt m (ion_nlevels (ion G nion)) 1 m (config_g (config G m)))
      else if ion_nlte (ion G nion) > 0
      then (let m = ion_first_nlte_level (ion G nion)
            in pf2_sum G weight kt m (ion_nlte (ion G nion)) 1 m (config_g (config G m)))
      else ion_g (ion G nion))"

function pf2_loop :: "globals \<Rightarrow> plasma \<Rightarrow> int \<Rightarrow> real \<Rightarrow> real \<Rightarrow> int \<Rightarrow> store \<Rightarrow> store" where
  "pf2_loop G xplasma xnion weight kt nion h =
     (if nion < xnion + 1
      then pf2_loop G xplasma xnion weight kt (nion + 1)
             (h(p_partition xplasma := (h (p_partition xplasma))(nion := pf2_ion G weight kt nion)))
      else h)"
  by pat_completeness auto
termination
  by (relation "measure (\<lambda>(G, xplasma, xnion, weight, kt, nion, h). nat (xnion + 1 - nion))") auto

declare pf2_loop.simps [simp del]

text \<open>\<open>partition_functions_2 (xplasma, xnion, temp, weight)\<close>; it has no exit.\<close>

definition partition_functions_2 ::
  "globals \<Rightarrow> plasma \<Rightarrow> int \<Rightarrow> real \<Rightarrow> real \<Rightarrow> store \<Rightarrow> store" where
  "partition_functions_2 G xplasma xnion temp weight h =
     (let kt = BOLTZMANN G * temp
      in pf2_loop G xplasma xnion weight kt (xnion - 1) h)"

section \<open>levels.c: LTE populations of an element\<close>

text \<open>
  Modelled from the spec: \<open>saha\<close>, the ionization-balance solver, is an external
  collaborator whose code is not among the sources.  The spec only says that it supplies
  the ionization fractions read back from the density array of the cell it is given, so
  the model writes that array and takes the numbers it writes as the parameter
  \<open>solver\<close>.
\<close>

definition saha ::
  "(plasma \<Rightarrow> real \<Rightarrow> real \<Rightarrow> store \<Rightarrow> darray) \<Rightarrow> plasma \<Rightarrow> real \<Rightarrow> real \<Rightarrow> store \<Rightarrow> store" where
  "saha solver xplasma xne t h = h(p_density xplasma := solver xplasma xne t h)"

text \<open>The loop \<open>levden_array[n] *= ion_fraction\<close> over the levels of one ion.\<close>

function scale_loop :: "globals \<Rightarrow> int \<Rightarrow> int \<Rightarrow> real \<Rightarrow> int \<Rightarrow> darray \<Rightarrow> darray" where
  "scale_loop G nion nlevden_first ion_fraction n a =
     (if n < nlevden_first + ion_nlte (ion G nion)
      then scale_loop G nion nlevden_first ion_fraction (n + 1) (a(n := a n * ion_fraction))
      else a)"
  by pat_completeness auto
termination
  by (relation "measure (\<lambda>(G, nion, nlevden_first, ion_fraction, n, a).
        nat (nlevden_first + ion_nlte (ion G nion) - n))") auto

declare scale_loop.simps [simp del]

text \<open>The loop of \<open>get_lte_matom_populations\<close> over the ions of the element.\<close>

function matom_ions_loop ::
  "globals \<Rightarrow> addr \<Rightarrow> int \<Rightarrow> plasma \<Rightarrow> real \<Rightarrow> int \<Rightarrow> store \<Rightarrow> store" where
  "matom_ions_loop G levden_array nelem xdummy_lte nh nion h =
     (if nion < ele_firstion (ele G nelem) + ele_nions (ele G nelem)
      then matom_ions_loop G levden_array nelem xdummy_lte nh (nion + 1)
             (let nlevden_first = ion_first_levden (ion G nion);
                  ion_fraction = h (p_density xdummy_lte) nion / (nh * ele_abun (ele G nelem));
                  z = h (p_partition xdummy_lte) nion;
                  h1 = get_boltzmann_populations G (p_levden xdummy_lte) nion 1
                         (p_t_r xdummy_lte) z nlevden_first h
              in h1(levden_array :=
                      scale_loop G nion nlevden_first ion_fraction nlevden_first
                        (h1 levden_array)))
      else h)"
  by pat_completeness auto
termination
  by (relation "measure (\<lambda>(G, levden_array, nelem, xdummy_lte, nh, nion, h).
        nat (ele_firstion (ele G nelem) + ele_nions (ele G nelem) - nion))") auto

declare matom_ions_loop.simps [simp del]

text \<open>
  \<open>get_lte_matom_populations (levden_array, nelem, xplasma)\<close>.  \<open>pdum\<close> is the
  automatic variable of the source, whose fields hold whatever the stack held until
  \<open>copy_plasma\<close> assigns some of them; \<open>levden_array\<close> is the address of the
  caller's output array.
\<close>

definition get_lte_matom_populations ::
  "globals \<Rightarrow> (plasma \<Rightarrow> real \<Rightarrow> real \<Rightarrow> store \<Rightarrow> darray) \<Rightarrow> plasma \<Rightarrow> addr \<Rightarrow> int \<Rightarrow> plasma
     \<Rightarrow> store \<Rightarrow> outcome" where
  "get_lte_matom_populations G solver pdum levden_array nelem xplasma h =
     (let nh = p_rho xplasma * rho2nh G;
          xdummy_lte = copy_plasma xplasma pdum
      in case partition_functions G xdummy_lte NEBULARMODE_TR h of
           Inl e \<Rightarrow> Inl e
         | Inr h1 \<Rightarrow>
             Inr (matom_ions_loop G levden_array nelem xdummy_lte nh
                    (ele_firstion (ele G nelem))
                    (saha solver xdummy_lte (p_ne xdummy_lte) (p_t_r xdummy_lte) h1)))"

section \<open>Concrete data for the scenarios\<close>

text \<open>
  One ion with a reduced ladder of \<open>k\<close> levels stored from index 0, flagged as
  carrying a superlevel; level \<open>n\<close> has weight \<open>gs n\<close> and energy \<open>exs n\<close>.
  Boltzmann's constant is 1.  \<open>lowest\<close> is \<open>LOWEST_SUPERLEVEL_THRESHOLD\<close> and
  \<open>cyc\<close> is \<open>geo.wcycle\<close>.
\<close>

definition ladder_ion :: "int \<Rightarrow> ion_rec" where
  "ladder_ion k = \<lparr>ion_g = 1, ion_nlevels = 0, ion_firstlevel = 0, ion_nlte = k,
     ion_first_nlte_level = 0, ion_first_levden = 0, ion_macro_info = 0,
     ion_has_superlevel = 1\<rparr>"

definition ladder_globals :: "int \<Rightarrow> (int \<Rightarrow> real) \<Rightarrow> (int \<Rightarrow> real) \<Rightarrow> int \<Rightarrow> int \<Rightarrow> globals" where
  "ladder_globals k gs exs lowest cyc =
     \<lparr>ion = (\<lambda>i. ladder_ion k),
      config = (\<lambda>n. \<lparr>config_g = gs n, config_ex = exs n, config_nion = 0\<rparr>),
      ele = (\<lambda>e. \<lparr>ele_firstion = 0, ele_nions = 1, ele_abun = 1\<rparr>),
      nions = 1, NIONS = 1, NPLASMA = 1, BOLTZMANN = 1,
      LOWEST_SUPERLEVEL_THRESHOLD = lowest, rho2nh = 1,
      geo_wcycle = cyc, geo_macro_ioniz_mode = 0\<rparr>"

text \<open>
  A cell at the given temperatures and dilution factor whose partition, density and
  level-density arrays are at the addresses 0, 1 and 2.
\<close>

definition cell0 :: "real \<Rightarrow> real \<Rightarrow> real \<Rightarrow> plasma" where
  "cell0 tr te dil = \<lparr>p_nwind = 0, p_nplasma = 0, p_ne = 1, p_rho = 1, p_vol = 1,
     p_t_r = tr, p_t_e = te, p_w = dil, p_partition = 0, p_density = 1, p_levden = 2\<rparr>"

definition macro0 :: macro where
  "macro0 = \<lparr>superlevel_lte_pops = (\<lambda>n. 0), superlevel_threshold = (\<lambda>i. 0),
     superlevel_norm = (\<lambda>i. 0)\<rparr>"

definition store0 :: store where
  "store0 = (\<lambda>a n. 0)"

text \<open>
  A macro cell for a five-level ladder of weight-2 levels whose four levels above the
  stored threshold 1 have \<open>lte_pop / g = 0.5, 0.3, 0.15, 0.05\<close> and norm 1.
\<close>

definition macro_four_above :: macro where
  "macro_four_above =
     \<lparr>superlevel_lte_pops = (\<lambda>n. 0)(0 := 1, 1 := 1.0, 2 := 0.6, 3 := 0.3, 4 := 0.1),
      superlevel_threshold = (\<lambda>i. 1), superlevel_norm = (\<lambda>i. 1)\<rparr>"

text \<open>
  Two population histories for that ladder (level densities at address 2): one in which
  the topmost level is a factor 10 away from LTE, one in which every level sits on its
  LTE ratio.
\<close>

definition store_top_off :: store where
  "store_top_off = store0(2 := (\<lambda>n. 0)(0 := 1, 4 := 1))"

definition store_all_lte :: store where
  "store_all_lte = store0(2 := (\<lambda>n. 0)(0 := 1, 1 := 1.0, 2 := 0.6, 3 := 0.3, 4 := 0.1))"


text \<open>
  Two ions of one element.  Ion 0 has two levels (weights 1, 3; energies 0, 1) and ion 1
  three (weights 2, 4, 6; energies 0, 1, 2); each ladder is listed both as detailed and
  as reduced levels, and the level densities of ion 1 follow those of ion 0.
\<close>

definition two_ion_globals :: globals where
  "two_ion_globals =
     \<lparr>ion = (\<lambda>i. if i = 0
                then \<lparr>ion_g = 1, ion_nlevels = 2, ion_firstlevel = 0, ion_nlte = 2,
                      ion_first_nlte_level = 0, ion_first_levden = 0, ion_macro_info = 0,
                      ion_has_superlevel = 0\<rparr>
                else \<lparr>ion_g = 2, ion_nlevels = 3, ion_firstlevel = 2, ion_nlte = 3,
                      ion_first_nlte_level = 2, ion_first_levden = 2, ion_macro_info = 0,
                      ion_has_superlevel = 0\<rparr>),
      config = (\<lambda>n. \<lparr>config_g = (if n = 0 then 1 else if n = 1 then 3 else if n = 2 then 2
                                   else if n = 3 then 4 else 6),
                     config_ex = (if n = 0 \<or> n = 2 then 0 else if n = 1 \<or> n = 3 then 1 else 2),
                     config_nion = (if n < 2 then 0 else 1)\<rparr>),
      ele = (\<lambda>e. \<lparr>ele_firstion = 0, ele_nions = 2, ele_abun = 1\<rparr>),
      nions = 2, NIONS = 2, NPLASMA = 1, BOLTZMANN = 1,
      LOWEST_SUPERLEVEL_THRESHOLD = 1, rho2nh = 1,
      geo_wcycle = 0, geo_macro_ioniz_mode = 0\<rparr>"


text \<open>
  The three-level ion of the worked example: weights 1, 3, 5 and energies 0, 1, 2, with
  Boltzmann's constant 1; \<open>Z3\<close> is its partition function at temperature 1 and
  weight 1.
\<close>

definition three_level_globals :: globals where
  "three_level_globals =
     ladder_globals 3 (\<lambda>n. if n = 0 then 1 else if n = 1 then 3 else 5)
       (\<lambda>n. real_of_int n) 1 0"

definition Z3 :: real where
  "Z3 = 1 + 3 * exp (- 1) + 5 * exp (- 2)"

text \<open>
  Two successive rebuilds of the superlevels of a three-level ladder of weight-2 levels
  with energies 0, 1, 2 at electron temperature 1: the first on cycle 0 from zeroed
  macro cells, the second on cycle 1, when the level densities of the previous cycle sit
  on their LTE ratios to ground.
\<close>

definition store_lte3 :: store where
  "store_lte3 = store0(2 := (\<lambda>n. 0)(0 := 1, 1 := exp (- 1), 2 := exp (- 2)))"

definition first_rebuild :: "int \<Rightarrow> macro" where
  "first_rebuild = setup_superlevels (ladder_globals 3 (\<lambda>n. 2) (\<lambda>n. real_of_int n) 1 0)
                     store0 (\<lambda>c. cell0 1 1 1) (\<lambda>c. macro0)"

definition second_rebuild :: "int \<Rightarrow> macro" where
  "second_rebuild = setup_superlevels (ladder_globals 3 (\<lambda>n. 2) (\<lambda>n. real_of_int n) 1 1)
                      store_lte3 (\<lambda>c. cell0 1 1 1) first_rebuild"

text \<open>
  A live cell of a one-ion element with two levels (weights 1, 3; energies 0, 1) at
  \<open>t_r = t_e = 1\<close> and dilution factor 1/2, as a mode-2 call of
  \<open>partition_functions\<close> leaves it; a dummy struct \<open>pdum0\<close> whose unassigned
  fields hold arbitrary values and whose level densities are at address 3; and a solver
  that reports density 1 for every ion.
\<close>

definition two_level_globals :: globals where
  "two_level_globals =
     ladder_globals 2 (\<lambda>n. if n = 0 then 1 else 3) (\<lambda>n. real_of_int n) 1 1"

definition pdum0 :: plasma where
  "pdum0 = \<lparr>p_nwind = 7, p_nplasma = 7, p_ne = 7, p_rho = 7, p_vol = 7,
     p_t_r = 7, p_t_e = 7, p_w = 7, p_partition = 7, p_density = 7, p_levden = 3\<rparr>"

definition unit_solver :: "plasma \<Rightarrow> real \<Rightarrow> real \<Rightarrow> store \<Rightarrow> darray" where
  "unit_solver x xne t h = (\<lambda>i. 1)"

definition live_store :: store where
  "live_store =
     (case partition_functions two_level_globals (cell0 1 1 (1 / 2)) NEBULARMODE_ML93
             (store0(1 := (\<lambda>n. 1))) of
        Inr h \<Rightarrow> h
      | Inl e \<Rightarrow> snd (snd e))"


text \<open>
  An ion listed twice: as one detailed level of weight 2 (\<open>config[0]\<close>) and as a
  reduced ladder of two levels of weights 6 and 10 (\<open>config[1]\<close>, \<open>config[2]\<close>),
  both starting at the ground state of energy 0.
\<close>

definition mixed_ladder_globals :: globals where
  "mixed_ladder_globals =
     \<lparr>ion = (\<lambda>i. \<lparr>ion_g = 2, ion_nlevels = 1, ion_firstlevel = 0, ion_nlte = 2,
                   ion_first_nlte_level = 1, ion_first_levden = 0, ion_macro_info = 0,
                   ion_has_superlevel = 0\<rparr>),
      config = (\<lambda>n. \<lparr>config_g = (if n = 0 then 2 else if n = 1 then 6 else 10),
                     config_ex = (if n = 2 then 1 else 0), config_nion = 0\<rparr>),
      ele = (\<lambda>e. \<lparr>ele_firstion = 0, ele_nions = 1, ele_abun = 1\<rparr>),
      nions = 1, NIONS = 1, NPLASMA = 1, BOLTZMANN = 1,
      LOWEST_SUPERLEVEL_THRESHOLD = 1, rho2nh = 1,
      geo_wcycle = 0, geo_macro_ioniz_mode = 0\<rparr>"

section \<open>Properties\<close>

subsection \<open>Sampling a superlevel\<close>

text \<open>
  Claim C3, as stated: for four levels above the threshold with
  \<open>lte_pop / g = 0.5, 0.3, 0.15, 0.05\<close>, norm 1 and a draw of 0.82,
  \<open>choose_superlevel_deactivation\<close> selects the level at offset 3 from the threshold.
  The code does not: the level returned is not \<open>threshold + 3\<close>.
\<close>

theorem draw_082_not_offset_three:
  "snd (choose_superlevel_deactivation (ladder_globals 5 (\<lambda>n. 2) (\<lambda>n. real_of_int n) 1 1)
          (\<lambda>c. macro_four_above) 0.82 (cell0 1 1 1) 4)
     \<noteq> superlevel_threshold macro_four_above 0 + 3"
  by (simp add: choose_superlevel_deactivation_def choose_loop.simps ladder_globals_def
        ladder_ion_def macro_four_above_def cell0_def)

text \<open>
  Claim C3, amended: in that scenario the walk stops after the third level (running sums
  0.5, 0.8, 0.95), steps back by one and returns the level at offset 2 from the threshold,
  the third level, whose span \<open>[0.8, 0.95)\<close> holds 0.82; no error is raised.
\<close>

theorem draw_082_selects_offset_two:
  "choose_superlevel_deactivation (ladder_globals 5 (\<lambda>n. 2) (\<lambda>n. real_of_int n) 1 1)
     (\<lambda>c. macro_four_above) 0.82 (cell0 1 1 1) 4
   = ([], superlevel_threshold macro_four_above 0 + 2)"
  by (simp add: choose_superlevel_deactivation_def choose_loop.simps ladder_globals_def
        ladder_ion_def macro_four_above_def cell0_def)

subsection \<open>The superlevel threshold\<close>

lemma threshold_loop_stays_or_floor:
  "threshold_loop G lte_pops levden ground_den ground lastden threshold n dep_coef = threshold
   \<or> threshold_loop G lte_pops levden ground_den ground lastden threshold n dep_coef - ground
        \<ge> LOWEST_SUPERLEVEL_THRESHOLD G"
  by (induction G lte_pops levden ground_den ground lastden threshold n dep_coef
        rule: threshold_loop.induct)
     (subst (1 2) threshold_loop.simps, auto)

text \<open>
  Claim C9.  On the very first iteration (\<open>geo.wcycle == 0\<close>) the threshold returned by
  \<open>get_superlevel_threshold\<close> is the ion's topmost reduced level,
  \<open>first_nlte_level + nlte - 1\<close>, for every cell, ion and store.
\<close>

theorem first_cycle_threshold_is_top:
  assumes "geo_wcycle G = 0"
  shows "get_superlevel_threshold G h macromain xplasma nion =
           ion_first_nlte_level (ion G nion) + ion_nlte (ion G nion) - 1"
  using assms by (simp add: get_superlevel_threshold_def Let_def)

theorem first_cycle_threshold_is_top_witness:
  "geo_wcycle (ladder_globals 5 (\<lambda>n. 1) (\<lambda>n. real_of_int n) 1 0) = 0
   \<and> get_superlevel_threshold (ladder_globals 5 (\<lambda>n. 1) (\<lambda>n. real_of_int n) 1 0)
         store0 (\<lambda>c. macro0) (cell0 1 1 1) 0 = 4"
  using first_cycle_threshold_is_top
          [of "ladder_globals 5 (\<lambda>n. 1) (\<lambda>n. real_of_int n) 1 0" store0 "\<lambda>c. macro0"
              "cell0 1 1 1" 0]
  by (simp add: ladder_globals_def ladder_ion_def)

text \<open>
  Claim C4.  On a later iteration (\<open>geo.wcycle \<noteq> 0\<close>), if the departure ratio of the
  topmost level is outside the open band \<open>(1 / LTE_DEP_FRAC, LTE_DEP_FRAC)\<close>, then
  \<open>get_superlevel_threshold\<close> returns \<open>first_nlte_level + nlte\<close>, one past the topmost
  level, and \<open>choose_superlevel_deactivation\<close>, run on any macro cell that stores this
  threshold for the ion of \<open>uplvl\<close>, returns that same index for every draw and raises
  neither of its two errors.
\<close>

theorem threshold_past_ladder_returned_silently:
  assumes cyc: "geo_wcycle G \<noteq> 0"
    and out: "\<not> (superlevel_lte_pops (macromain (p_nplasma xplasma))
                 (ion_nlte (ion G nion) + ion_first_nlte_level (ion G nion) - 1)
               / (h (p_levden xplasma) (ion_first_levden (ion G nion) + ion_nlte (ion G nion) - 1)
                  / h (p_levden xplasma) (ion_first_levden (ion G nion))) < LTE_DEP_FRAC
             \<and> superlevel_lte_pops (macromain (p_nplasma xplasma))
                 (ion_nlte (ion G nion) + ion_first_nlte_level (ion G nion) - 1)
               / (h (p_levden xplasma) (ion_first_levden (ion G nion) + ion_nlte (ion G nion) - 1)
                  / h (p_levden xplasma) (ion_first_levden (ion G nion))) > 1 / LTE_DEP_FRAC)"
    and stored: "superlevel_threshold (macromain' (p_nplasma xplasma)) nion
                   = get_superlevel_threshold G h macromain xplasma nion"
    and up: "config_nion (config G uplvl) = nion"
  shows "get_superlevel_threshold G h macromain xplasma nion
           = ion_first_nlte_level (ion G nion) + ion_nlte (ion G nion)
         \<and> choose_superlevel_deactivation G macromain' z xplasma uplvl
           = ([], ion_first_nlte_level (ion G nion) + ion_nlte (ion G nion))"
proof -
  have ret: "get_superlevel_threshold G h macromain xplasma nion
           = ion_first_nlte_level (ion G nion) + ion_nlte (ion G nion)"
    using cyc out
    by (subst get_superlevel_threshold_def, simp only: Let_def, subst threshold_loop.simps) auto
  have loop: "choose_loop G (macromain' (p_nplasma xplasma)) t
                (ion_first_nlte_level (ion G nion)) nion 0
                (ion_first_nlte_level (ion G nion) + ion_nlte (ion G nion))
              = (0, ion_first_nlte_level (ion G nion) + ion_nlte (ion G nion))" for t
    by (subst choose_loop.simps) simp
  have "choose_superlevel_deactivation G macromain' z xplasma uplvl
           = ([], ion_first_nlte_level (ion G nion) + ion_nlte (ion G nion))"
    using stored up ret
    by (simp add: choose_superlevel_deactivation_def Let_def loop)
  with ret show ?thesis by simp
qed

theorem threshold_past_ladder_returned_silently_witness:
  "geo_wcycle (ladder_globals 5 (\<lambda>n. 2) (\<lambda>n. real_of_int n) 1 1) \<noteq> 0
   \<and> superlevel_lte_pops macro_four_above 4 / (store_top_off 2 4 / store_top_off 2 0) = 1 / 10
   \<and> get_superlevel_threshold (ladder_globals 5 (\<lambda>n. 2) (\<lambda>n. real_of_int n) 1 1)
        store_top_off (\<lambda>c. macro_four_above) (cell0 1 1 1) 0 = 5
   \<and> choose_superlevel_deactivation (ladder_globals 5 (\<lambda>n. 2) (\<lambda>n. real_of_int n) 1 1)
        (\<lambda>c. macro_four_above\<lparr>superlevel_threshold := (\<lambda>i. 5), superlevel_norm := (\<lambda>i. 0)\<rparr>)
        0.82 (cell0 1 1 1) 4 = ([], 5)"
  using threshold_past_ladder_returned_silently
          [of "ladder_globals 5 (\<lambda>n. 2) (\<lambda>n. real_of_int n) 1 1" "\<lambda>c. macro_four_above"
              "cell0 1 1 1" 0 store_top_off
              "\<lambda>c. macro_four_above\<lparr>superlevel_threshold := (\<lambda>i. 5), superlevel_norm := (\<lambda>i. 0)\<rparr>"
              4 "0.82"]
  by (simp add: get_superlevel_threshold_def threshold_loop.simps ladder_globals_def
        ladder_ion_def macro_four_above_def store_top_off_def store0_def cell0_def
        LTE_DEP_FRAC_def)

text \<open>
  Claim C5, as stated: for every ion and history the number of aggregated levels,
  \<open>top - threshold + 1\<close>, is at most \<open>nlte - LOWEST_SUPERLEVEL_THRESHOLD\<close>.  It
  fails on the first iteration for a two-level ladder with floor 2: the threshold is the
  topmost level, so one level counts as aggregated, and the bound is 0.
\<close>

theorem first_cycle_count_exceeds_floor_bound:
  "\<not> ((ion_first_nlte_level (ion (ladder_globals 2 (\<lambda>n. 2) (\<lambda>n. real_of_int n) 2 0) 0)
        + ion_nlte (ion (ladder_globals 2 (\<lambda>n. 2) (\<lambda>n. real_of_int n) 2 0) 0) - 1)
       - get_superlevel_threshold (ladder_globals 2 (\<lambda>n. 2) (\<lambda>n. real_of_int n) 2 0)
           store0 (\<lambda>c. macro0) (cell0 1 1 1) 0 + 1
       \<le> ion_nlte (ion (ladder_globals 2 (\<lambda>n. 2) (\<lambda>n. real_of_int n) 2 0) 0)
         - LOWEST_SUPERLEVEL_THRESHOLD (ladder_globals 2 (\<lambda>n. 2) (\<lambda>n. real_of_int n) 2 0))"
  by (simp add: get_superlevel_threshold_def ladder_globals_def ladder_ion_def)

text \<open>
  Claim C5, amended: for every cell, ion and population history, if the floor does not
  exceed the size of the ion's reduced ladder, and is strictly smaller than it on the
  first iteration (where the threshold is the topmost level whatever the floor), then
  the number of aggregated levels, \<open>top - threshold + 1\<close>, is at most
  \<open>nlte - LOWEST_SUPERLEVEL_THRESHOLD\<close>.
\<close>

theorem aggregated_count_within_floor_bound:
  assumes "geo_wcycle G = 0 \<longrightarrow> LOWEST_SUPERLEVEL_THRESHOLD G < ion_nlte (ion G nion)"
    and "geo_wcycle G \<noteq> 0 \<longrightarrow> LOWEST_SUPERLEVEL_THRESHOLD G \<le> ion_nlte (ion G nion)"
  shows "(ion_first_nlte_level (ion G nion) + ion_nlte (ion G nion) - 1)
           - get_superlevel_threshold G h macromain xplasma nion + 1
         \<le> ion_nlte (ion G nion) - LOWEST_SUPERLEVEL_THRESHOLD G"
proof (cases "geo_wcycle G = 0")
  case True
  with assms(1) show ?thesis
    by (simp add: get_superlevel_threshold_def Let_def)
next
  case False
  define ground where "ground = ion_first_nlte_level (ion G nion)"
  define levden where "levden = h (p_levden xplasma)"
  define pops where "pops = superlevel_lte_pops (macromain (p_nplasma xplasma))"
  define top where "top = ion_nlte (ion G nion) + ground - 1"
  define lastden where "lastden = ion_first_levden (ion G nion) + ion_nlte (ion G nion) - 1"
  define ground_den where "ground_den = levden (ion_first_levden (ion G nion))"
  define r where "r = threshold_loop G pops levden ground_den ground lastden top 0
                        (pops top / (levden lastden / ground_den))"
  have ret: "get_superlevel_threshold G h macromain xplasma nion = r + 1"
    using False
    by (simp add: get_superlevel_threshold_def Let_def r_def ground_def levden_def pops_def
          top_def lastden_def ground_den_def)
  have "r = top \<or> r - ground \<ge> LOWEST_SUPERLEVEL_THRESHOLD G"
    unfolding r_def by (rule threshold_loop_stays_or_floor)
  then show ?thesis
  proof
    assume "r = top"
    with ret assms(2) False show ?thesis
      by (simp add: top_def ground_def)
  next
    assume "r - ground \<ge> LOWEST_SUPERLEVEL_THRESHOLD G"
    with ret show ?thesis
      by (simp add: ground_def)
  qed
qed

theorem aggregated_count_within_floor_bound_witness:
  "geo_wcycle (ladder_globals 5 (\<lambda>n. 2) (\<lambda>n. real_of_int n) 1 1) \<noteq> 0
   \<and> LOWEST_SUPERLEVEL_THRESHOLD (ladder_globals 5 (\<lambda>n. 2) (\<lambda>n. real_of_int n) 1 1) \<le> 5
   \<and> get_superlevel_threshold (ladder_globals 5 (\<lambda>n. 2) (\<lambda>n. real_of_int n) 1 1)
         store_all_lte (\<lambda>c. macro_four_above) (cell0 1 1 1) 0 = 2
   \<and> 4 - get_superlevel_threshold (ladder_globals 5 (\<lambda>n. 2) (\<lambda>n. real_of_int n) 1 1)
         store_all_lte (\<lambda>c. macro_four_above) (cell0 1 1 1) 0 + 1 \<le> 5 - 1
   \<and> geo_wcycle (ladder_globals 5 (\<lambda>n. 2) (\<lambda>n. real_of_int n) 1 0) = 0
   \<and> LOWEST_SUPERLEVEL_THRESHOLD (ladder_globals 5 (\<lambda>n. 2) (\<lambda>n. real_of_int n) 1 0) < 5
   \<and> 4 - get_superlevel_threshold (ladder_globals 5 (\<lambda>n. 2) (\<lambda>n. real_of_int n) 1 0)
         store_all_lte (\<lambda>c. macro_four_above) (cell0 1 1 1) 0 + 1 \<le> 5 - 1"
  using aggregated_count_within_floor_bound
          [of "ladder_globals 5 (\<lambda>n. 2) (\<lambda>n. real_of_int n) 1 1" 0 store_all_lte
              "\<lambda>c. macro_four_above" "cell0 1 1 1"]
        aggregated_count_within_floor_bound
          [of "ladder_globals 5 (\<lambda>n. 2) (\<lambda>n. real_of_int n) 1 0" 0 store_all_lte
              "\<lambda>c. macro_four_above" "cell0 1 1 1"]
  by (simp add: get_superlevel_threshold_def threshold_loop.simps ladder_globals_def
        ladder_ion_def macro_four_above_def store_all_lte_def store0_def cell0_def
        LTE_DEP_FRAC_def)

subsection \<open>Partition functions and level populations\<close>

lemmas mode_defs = NEBULARMODE_TR_def NEBULARMODE_TE_def NEBULARMODE_ML93_def
  NEBULARMODE_NLTE_SIM_def NEBULARMODE_LTE_GROUND_def

lemmas run_simps = partition_functions_def pf_body_def pf_loop.simps pf_ion_def pf_sum.simps
  levels_def levels_loop.simps get_boltzmann_populations_def boltzmann_loop.simps
  get_lte_matom_populations_def copy_plasma_def saha_def matom_ions_loop.simps
  scale_loop.simps Let_def mode_defs

text \<open>
  Claim C10.  For a mode outside \<open>{0, 1, 2, 3, 4}\<close> both \<open>partition_functions\<close> and
  \<open>levels\<close> pass a message to \<open>Error\<close> and exit, and the store at that moment is the
  store they were given: nothing has been written, in particular not the partition and
  level-density arrays of the cell.  For a mode in \<open>{0, 1, 2, 3, 4}\<close> both return.
\<close>

theorem unknown_mode_exits_before_writing:
  "(mode \<notin> {0, 1, 2, 3, 4} \<longrightarrow>
      partition_functions G xplasma mode h = Inl (Err_partition_unknown_mode mode, 0, h)
      \<and> levels G xplasma mode h = Inl (Err_levels_mode mode, 0, h))
   \<and> (mode \<in> {0, 1, 2, 3, 4} \<longrightarrow>
      (\<exists>h'. partition_functions G xplasma mode h = Inr h')
      \<and> (\<exists>h'. levels G xplasma mode h = Inr h'))"
  by (auto simp: partition_functions_def levels_def pf_body_def Let_def mode_defs)

theorem unknown_mode_exits_before_writing_witness:
  "(7::int) \<notin> {0, 1, 2, 3, 4} \<and> (2::int) \<in> {0, 1, 2, 3, 4}
   \<and> partition_functions two_ion_globals (cell0 1 1 1) 7 store0
       = Inl (Err_partition_unknown_mode 7, 0, store0)
   \<and> levels two_ion_globals (cell0 1 1 1) 7 store0 = Inl (Err_levels_mode 7, 0, store0)
   \<and> (\<exists>h'. partition_functions two_ion_globals (cell0 1 1 1) 2 store0 = Inr h')
   \<and> (\<exists>h'. levels two_ion_globals (cell0 1 1 1) 2 store0 = Inr h')"
  using unknown_mode_exits_before_writing [of 7 two_ion_globals "cell0 1 1 1" store0]
        unknown_mode_exits_before_writing [of 2 two_ion_globals "cell0 1 1 1" store0]
  by simp

lemma pf_sum_eq_pf2_sum: "pf_sum G weight kt m_ground cnt n m z = pf2_sum G weight kt m_ground cnt n m z"
proof (induction G weight kt m_ground cnt n m z rule: pf_sum.induct)
  case (1 G weight kt m_ground cnt n m z)
  show ?case
  proof (cases "n < cnt")
    case True
    with 1 show ?thesis
      by (subst pf_sum.simps, subst pf2_sum.simps) simp
  next
    case False
    then show ?thesis
      by (subst pf_sum.simps, subst pf2_sum.simps) simp
  qed
qed

lemma pf_ion_eq_pf2_ion: "pf_ion G weight kt nion = pf2_ion G weight kt nion"
  by (simp add: pf_ion_def pf2_ion_def pf_sum_eq_pf2_sum)

lemma pf_loop_other: "a \<noteq> p_partition x \<Longrightarrow> pf_loop G x weight kt n0 h a = h a"
  by (induction G x weight kt n0 h rule: pf_loop.induct) (subst pf_loop.simps, simp)

lemma pf_loop_below: "i < n0 \<Longrightarrow> pf_loop G x weight kt n0 h (p_partition x) i = h (p_partition x) i"
  by (induction G x weight kt n0 h rule: pf_loop.induct) (subst pf_loop.simps, simp)

lemma pf_loop_at:
  "n0 \<le> i \<Longrightarrow> i < nions G \<Longrightarrow> pf_loop G x weight kt n0 h (p_partition x) i = pf_ion G weight kt i"
proof (induction G x weight kt n0 h rule: pf_loop.induct)
  case (1 G x weight kt nion h)
  show ?case
  proof (cases "nion = i")
    case True
    with 1(3) show ?thesis
      by (subst pf_loop.simps) (simp add: pf_loop_below)
  next
    case False
    with 1(2,3) have lt: "nion < nions G" and le: "nion + 1 \<le> i" by simp_all
    have "pf_loop G x weight kt (nion + 1)
            (h(p_partition x := (h (p_partition x))(nion := pf_ion G weight kt nion)))
            (p_partition x) i = pf_ion G weight kt i"
      by (rule 1(1) [OF lt le 1(3)])
    with lt show ?thesis
      by (subst pf_loop.simps) (simp del: fun_upd_apply)
  qed
qed

lemma get_boltzmann_other:
  "a \<noteq> levden_array \<Longrightarrow> get_boltzmann_populations G levden_array nion w t z nlevden h a = h a"
  by (simp add: get_boltzmann_populations_def Let_def)

lemma levels_loop_other:
  "a \<noteq> p_levden x \<Longrightarrow> levels_loop G x t weight n0 h a = h a"
  by (induction G x t weight n0 h rule: levels_loop.induct)
     (subst levels_loop.simps, simp add: get_boltzmann_other Let_def)

lemma pf2_loop_pair:
  "pf2_loop G x k weight kt (k - 1) h (p_partition x)
     = (h (p_partition x))(k - 1 := pf2_ion G weight kt (k - 1), k := pf2_ion G weight kt k)"
  apply (subst pf2_loop.simps, simp)
  apply (subst pf2_loop.simps, simp)
  apply (subst pf2_loop.simps, simp)
  done

lemma pf_body_partition:
  assumes "0 \<le> i" "i < nions G" "p_levden x \<noteq> p_partition x" "mode \<in> {0, 1, 2, 3, 4}"
  shows "\<exists>h'. pf_body G x mode t weight h = Inr h'
            \<and> h' (p_partition x) i = pf_ion G weight (BOLTZMANN G * t) i"
  using assms
  by (auto simp: pf_body_def levels_def Let_def mode_defs levels_loop_other pf_loop_at)

text \<open>
  Claim C7.  Let \<open>k\<close> be an ion index with \<open>1 \<le> k < nions\<close> and let \<open>(T, wt)\<close> be the
  temperature and weight that \<open>partition_functions\<close> selects for \<open>mode\<close>.  Then
  \<open>partition_functions\<close> returns, and the two values that
  \<open>partition_functions_2 (xplasma, k, T, wt)\<close> writes to \<open>partition[k - 1]\<close> and
  \<open>partition[k]\<close> are the values \<open>partition_functions\<close> leaves there.  The cell's
  level-density array and partition array are two different arrays.
\<close>

theorem pair_agrees_with_full_loop:
  assumes k: "1 \<le> k" "k < nions G"
    and sep: "p_levden x \<noteq> p_partition x"
    and sel: "(mode = NEBULARMODE_TR \<and> T = p_t_r x \<and> wt = 1)
            \<or> (mode = NEBULARMODE_TE \<and> T = p_t_e x \<and> wt = 1)
            \<or> (mode = NEBULARMODE_ML93 \<and> T = p_t_r x \<and> wt = p_w x)
            \<or> (mode = NEBULARMODE_NLTE_SIM \<and> T = p_t_e x \<and> wt = 1)
            \<or> (mode = NEBULARMODE_LTE_GROUND \<and> T = p_t_e x \<and> wt = 0)"
  shows "\<exists>h'. partition_functions G x mode h = Inr h'
           \<and> partition_functions_2 G x k T wt h2 (p_partition x) (k - 1) = h' (p_partition x) (k - 1)
           \<and> partition_functions_2 G x k T wt h2 (p_partition x) k = h' (p_partition x) k"
proof -
  have m: "mode \<in> {0, 1, 2, 3, 4}"
    using sel by (auto simp: mode_defs)
  have pf: "partition_functions G x mode h = pf_body G x mode T wt h"
    using sel by (auto simp: partition_functions_def mode_defs)
  from k have k1: "0 \<le> k - 1" "k - 1 < nions G" and k0: "0 \<le> k" by simp_all
  obtain h' where h': "pf_body G x mode T wt h = Inr h'"
    and a: "h' (p_partition x) (k - 1) = pf_ion G wt (BOLTZMANN G * T) (k - 1)"
    using pf_body_partition [OF k1 sep m, of T wt h] by blast
  obtain h'' where h'': "pf_body G x mode T wt h = Inr h''"
    and b: "h'' (p_partition x) k = pf_ion G wt (BOLTZMANN G * T) k"
    using pf_body_partition [OF k0 k(2) sep m, of T wt h] by blast
  from h' h'' have "h'' = h'" by simp
  with a b pf h' show ?thesis
    by (simp add: partition_functions_2_def Let_def pf2_loop_pair pf_ion_eq_pf2_ion)
qed


theorem pair_agrees_with_full_loop_witness:
  "(1::int) \<le> 1 \<and> 1 < nions two_ion_globals
   \<and> p_levden (cell0 1 1 (1 / 2)) \<noteq> p_partition (cell0 1 1 (1 / 2))
   \<and> (\<exists>h'. partition_functions two_ion_globals (cell0 1 1 (1 / 2)) NEBULARMODE_ML93 store0 = Inr h'
         \<and> partition_functions_2 two_ion_globals (cell0 1 1 (1 / 2)) 1 1 (1 / 2) store0 0 0 = h' 0 0
         \<and> partition_functions_2 two_ion_globals (cell0 1 1 (1 / 2)) 1 1 (1 / 2) store0 0 1 = h' 0 1)"
  using pair_agrees_with_full_loop
          [of 1 two_ion_globals "cell0 1 1 (1 / 2)" NEBULARMODE_ML93 1 "1 / 2" store0 store0]
  by (simp add: two_ion_globals_def cell0_def mode_defs)

lemma pf_sum_weight_zero: "pf_sum G 0 kt m_ground cnt n m z = z"
  by (induction G "0::real" kt m_ground cnt n m z rule: pf_sum.induct)
     (subst pf_sum.simps, simp)

lemma boltzmann_loop_frame:
  "i \<le> nlevden \<or> nlevden + (ion_nlte (ion G nion) - n) < i \<Longrightarrow>
   boltzmann_loop G nion w z ground m_ground kt n m nlevden a i = a i"
  by (induction G nion w z ground m_ground kt n m nlevden a rule: boltzmann_loop.induct)
     (subst boltzmann_loop.simps, auto)

lemma boltzmann_loop_weight_zero:
  "nlevden < i \<Longrightarrow> i \<le> nlevden + (ion_nlte (ion G nion) - n) \<Longrightarrow>
   boltzmann_loop G nion 0 z ground m_ground kt n m nlevden a i = 0"
proof (induction G nion "0::real" z ground m_ground kt n m nlevden a rule: boltzmann_loop.induct)
  case (1 G nion z ground m_ground kt n m nlevden a)
  from 1(2,3) have lt: "n < ion_nlte (ion G nion)" by simp
  show ?case
  proof (cases "i = nlevden + 1")
    case True
    with lt show ?thesis
      by (subst boltzmann_loop.simps) (simp add: boltzmann_loop_frame)
  next
    case False
    with 1(2,3) have a: "nlevden + 1 < i" and b: "i \<le> nlevden + 1 + (ion_nlte (ion G nion) - (n + 1))"
      by simp_all
    have "boltzmann_loop G nion 0 z ground m_ground kt (n + 1) (m + 1) (nlevden + 1)
            (a(nlevden + 1 := ground * 0 * config_g (config G (m + 1))
                * exp ((- config_ex (config G (m + 1)) + config_ex (config G m_ground)) / kt) / z)) i = 0"
      by (rule 1(1) [OF lt a b])
    with lt show ?thesis
      by (subst boltzmann_loop.simps) (simp del: fun_upd_apply)
  qed
qed

lemma get_boltzmann_frame:
  "i < nlevden \<or> nlevden + ion_nlte (ion G nion) \<le> i \<Longrightarrow> 0 < ion_nlte (ion G nion) \<Longrightarrow>
   get_boltzmann_populations G A nion w t z nlevden h A i = h A i"
  by (auto simp: get_boltzmann_populations_def Let_def boltzmann_loop_frame)

lemma get_boltzmann_weight_zero:
  "nlevden \<le> i \<Longrightarrow> i < nlevden + ion_nlte (ion G nion) \<Longrightarrow>
   get_boltzmann_populations G A nion 0 t z nlevden h A i
     = (if i = nlevden then config_g (config G (ion_first_nlte_level (ion G nion))) / z else 0)"
  by (auto simp: get_boltzmann_populations_def Let_def boltzmann_loop_frame
        boltzmann_loop_weight_zero)

lemma levels_loop_frame:
  "(\<forall>j. n0 \<le> j \<and> j < nions G \<and> ion_nlte (ion G j) > 0
        \<and> (ion_macro_info (ion G j) = 0 \<or> geo_macro_ioniz_mode G = 0)
      \<longrightarrow> i < ion_first_levden (ion G j)
          \<or> ion_first_levden (ion G j) + ion_nlte (ion G j) \<le> i) \<Longrightarrow>
   levels_loop G x t weight n0 h (p_levden x) i = h (p_levden x) i"
proof (induction G x t weight n0 h rule: levels_loop.induct)
  case (1 G x t weight nion h)
  show ?case
  proof (cases "nion < nions G")
    case True
    let ?h1 = "(if ion_nlte (ion G nion) > 0
              then (if ion_macro_info (ion G nion) = 0 \<or> geo_macro_ioniz_mode G = 0
                    then (let z = h (p_partition x) nion;
                              nlevden = ion_first_levden (ion G nion)
                          in get_boltzmann_populations G (p_levden x) nion weight t z
                               nlevden h)
                    else h)
              else h)"
    have "levels_loop G x t weight (nion + 1) ?h1 (p_levden x) i = ?h1 (p_levden x) i"
      by (rule 1(1) [OF True]) (use 1(2) in auto)
    moreover have "?h1 (p_levden x) i = h (p_levden x) i"
      using 1(2) True by (auto simp: Let_def get_boltzmann_frame)
    ultimately show ?thesis
      using True by (subst levels_loop.simps) (simp only: if_True)
  next
    case False
    then show ?thesis by (subst levels_loop.simps) simp
  qed
qed

lemma levels_loop_ground_only:
  assumes "start \<le> nion" "nion < nions G"
    and "ion_nlte (ion G nion) > 0"
    and "ion_macro_info (ion G nion) = 0 \<or> geo_macro_ioniz_mode G = 0"
    and "p_levden x \<noteq> p_partition x"
    and "h (p_partition x) nion = config_g (config G (ion_first_nlte_level (ion G nion)))"
    and "config_g (config G (ion_first_nlte_level (ion G nion))) \<noteq> 0"
    and "\<forall>j. nion < j \<and> j < nions G \<and> ion_nlte (ion G j) > 0
            \<and> (ion_macro_info (ion G j) = 0 \<or> geo_macro_ioniz_mode G = 0)
          \<longrightarrow> i < ion_first_levden (ion G j)
              \<or> ion_first_levden (ion G j) + ion_nlte (ion G j) \<le> i"
    and "ion_first_levden (ion G nion) \<le> i" "i < ion_first_levden (ion G nion) + ion_nlte (ion G nion)"
  shows "levels_loop G x t 0 start h (p_levden x) i = (if i = ion_first_levden (ion G nion) then 1 else 0)"
  using assms
proof (induction G x t "0::real" start h rule: levels_loop.induct)
  case (1 G x t n0 h)
  let ?h1 = "(if ion_nlte (ion G n0) > 0
              then (if ion_macro_info (ion G n0) = 0 \<or> geo_macro_ioniz_mode G = 0
                    then (let z = h (p_partition x) n0;
                              nlevden = ion_first_levden (ion G n0)
                          in get_boltzmann_populations G (p_levden x) n0 0 t z
                               nlevden h)
                    else h)
              else h)"
  from 1(2,3) have lt: "n0 < nions G" by simp
  have unfold: "levels_loop G x t 0 n0 h = levels_loop G x t 0 (n0 + 1) ?h1"
    using lt by (subst levels_loop.simps) (simp only: if_True)
  show ?case
  proof (cases "n0 = nion")
    case True
    have "levels_loop G x t 0 (n0 + 1) ?h1 (p_levden x) i = ?h1 (p_levden x) i"
      by (rule levels_loop_frame) (use 1(9) True in auto)
    moreover have "?h1 (p_levden x) i = (if i = ion_first_levden (ion G nion) then 1 else 0)"
      using True 1(4,5,7,8,10,11) by (simp add: Let_def get_boltzmann_weight_zero)
    ultimately show ?thesis using unfold by simp
  next
    case False
    with 1(2) have le: "n0 + 1 \<le> nion" by simp
    have keep: "?h1 (p_partition x) nion = config_g (config G (ion_first_nlte_level (ion G nion)))"
      using 1(6,7) by (simp add: Let_def get_boltzmann_other)
    have "levels_loop G x t 0 (n0 + 1) ?h1 (p_levden x) i
            = (if i = ion_first_levden (ion G nion) then 1 else 0)"
      by (rule 1(1) [OF lt le 1(3,4,5,6) keep 1(8,9,10,11)])
    with unfold show ?thesis by simp
  qed
qed


lemma pf_ion_weight_zero:
  "pf_ion G 0 kt nion =
     (if ion_nlevels (ion G nion) > 0 then config_g (config G (ion_firstlevel (ion G nion)))
      else if ion_nlte (ion G nion) > 0
      then config_g (config G (ion_first_nlte_level (ion G nion)))
      else ion_g (ion G nion))"
  by (simp add: pf_ion_def Let_def pf_sum_weight_zero)

text \<open>
  Claim C6, as stated: in ground-state-only mode (mode 4, weight 0) every ion whose
  populations \<open>levels\<close> computes ends with level density 1 at its ground level.  It
  fails for an ion that also has detailed levels: \<open>partition_functions\<close> then takes
  \<open>z\<close> from the detailed ladder, whose first weight is 2 here, while
  \<open>get_boltzmann_populations\<close> divides the reduced ground weight 6 by it, and the
  ground level density is 3.
\<close>

theorem ground_only_mismatched_ground_weights:
  "0 < ion_nlte (ion mixed_ladder_globals 0)
   \<and> ion_macro_info (ion mixed_ladder_globals 0) = 0
   \<and> \<not> isl (partition_functions mixed_ladder_globals (cell0 1 1 1) NEBULARMODE_LTE_GROUND store0)
   \<and> projr (partition_functions mixed_ladder_globals (cell0 1 1 1) NEBULARMODE_LTE_GROUND store0)
         (p_levden (cell0 1 1 1)) (ion_first_levden (ion mixed_ladder_globals 0)) = 3
   \<and> projr (partition_functions mixed_ladder_globals (cell0 1 1 1) NEBULARMODE_LTE_GROUND store0)
         (p_levden (cell0 1 1 1)) (ion_first_levden (ion mixed_ladder_globals 0)) \<noteq> 1"
  by (simp add: run_simps mixed_ladder_globals_def cell0_def store0_def)

text \<open>
  Claim C6, amended.  In ground-state-only mode (mode 4, weight 0),
  \<open>partition_functions\<close> returns and, for every ion in \<open>0 \<le> nion < nions\<close> whose
  populations \<open>levels\<close> computes (\<open>nlte > 0\<close> and not held back by the macro-atom
  guard) and whose detailed ladder, if it has one, starts at a level of the same
  statistical weight as its reduced ground level, the level-density array holds 1 at the
  ion's ground level and 0 at every level above it, whatever the temperatures of the
  cell.  The data are otherwise taken to be well formed: the ground weight is not zero,
  no later ion's block of level densities overlaps this ion's block, and the
  level-density array is not the partition array.
\<close>

theorem ground_state_only_populations:
  assumes rng: "0 \<le> nion" "nion < nions G"
    and nlte: "ion_nlte (ion G nion) > 0"
    and guard: "ion_macro_info (ion G nion) = 0 \<or> geo_macro_ioniz_mode G = 0"
    and sep: "p_levden x \<noteq> p_partition x"
    and gnz: "config_g (config G (ion_first_nlte_level (ion G nion))) \<noteq> 0"
    and same: "ion_nlevels (ion G nion) > 0 \<longrightarrow>
                 config_g (config G (ion_firstlevel (ion G nion)))
                   = config_g (config G (ion_first_nlte_level (ion G nion)))"
    and disj: "\<forall>j. nion < j \<and> j < nions G \<and> ion_nlte (ion G j) > 0
                 \<and> (ion_macro_info (ion G j) = 0 \<or> geo_macro_ioniz_mode G = 0)
               \<longrightarrow> ion_first_levden (ion G j) + ion_nlte (ion G j) \<le> ion_first_levden (ion G nion)
                   \<or> ion_first_levden (ion G nion) + ion_nlte (ion G nion)
                       \<le> ion_first_levden (ion G j)"
  shows "\<exists>h'. partition_functions G x NEBULARMODE_LTE_GROUND h = Inr h'
           \<and> h' (p_levden x) (ion_first_levden (ion G nion)) = 1
           \<and> (\<forall>n. 0 < n \<and> n < ion_nlte (ion G nion)
                \<longrightarrow> h' (p_levden x) (ion_first_levden (ion G nion) + n) = 0)"
proof -
  define kt where "kt = BOLTZMANN G * p_t_e x"
  define h1 where "h1 = pf_loop G x 0 kt 0 h"
  define h' where "h' = levels_loop G x (p_t_e x) 0 0 h1"
  have run: "partition_functions G x NEBULARMODE_LTE_GROUND h = Inr h'"
    by (simp add: partition_functions_def pf_body_def levels_def Let_def mode_defs
          h'_def h1_def kt_def)
  have z: "h1 (p_partition x) nion = config_g (config G (ion_first_nlte_level (ion G nion)))"
    unfolding h1_def using rng nlte same
    by (simp add: pf_loop_at pf_ion_weight_zero)
  have block: "h' (p_levden x) i = (if i = ion_first_levden (ion G nion) then 1 else 0)"
    if lo: "ion_first_levden (ion G nion) \<le> i"
      and hi: "i < ion_first_levden (ion G nion) + ion_nlte (ion G nion)" for i
  proof -
    have later: "\<forall>j. nion < j \<and> j < nions G \<and> ion_nlte (ion G j) > 0
                   \<and> (ion_macro_info (ion G j) = 0 \<or> geo_macro_ioniz_mode G = 0)
                 \<longrightarrow> i < ion_first_levden (ion G j)
                     \<or> ion_first_levden (ion G j) + ion_nlte (ion G j) \<le> i"
      using disj lo hi by fastforce
    show ?thesis
      unfolding h'_def
      by (rule levels_loop_ground_only
            [where start = 0 and nion = nion and h = h1 and i = i,
              OF rng(1) rng(2) nlte guard sep z gnz later lo hi])
  qed
  have "h' (p_levden x) (ion_first_levden (ion G nion)) = 1"
    using block [of "ion_first_levden (ion G nion)"] nlte by simp
  moreover have "h' (p_levden x) (ion_first_levden (ion G nion) + n) = 0"
    if "0 < n \<and> n < ion_nlte (ion G nion)" for n
    using block [of "ion_first_levden (ion G nion) + n"] that by simp
  ultimately show ?thesis using run by blast
qed

theorem ground_state_only_populations_witness:
  "0 < ion_nlte (ion two_ion_globals 0)
   \<and> 0 < ion_nlevels (ion two_ion_globals 0)
   \<and> config_g (config two_ion_globals (ion_first_nlte_level (ion two_ion_globals 0))) \<noteq> 0
   \<and> (\<exists>h'. partition_functions two_ion_globals (cell0 1 1 1) NEBULARMODE_LTE_GROUND store0 = Inr h'
         \<and> h' 2 0 = 1 \<and> h' 2 1 = 0)"
proof -
  obtain h' where run: "partition_functions two_ion_globals (cell0 1 1 1) NEBULARMODE_LTE_GROUND store0 = Inr h'"
    and g: "h' 2 0 = 1" and u: "\<forall>n. 0 < n \<and> n < 2 \<longrightarrow> h' 2 n = 0"
    using ground_state_only_populations [of 0 two_ion_globals "cell0 1 1 1" store0]
    by (auto simp: two_ion_globals_def cell0_def)
  from u have "h' 2 1 = 0" by simp
  with run g show ?thesis
    by (simp add: two_ion_globals_def)
qed


lemma three_level_run:
  "partition_functions three_level_globals (cell0 1 1 1) NEBULARMODE_TR store0 =
     Inr (store0
       (0 := (\<lambda>n. 0)(0 := Z3),
        2 := (\<lambda>n. 0)
          (0 := 1 / Z3,
           1 := 1 / Z3 * 1 * 3 * exp (- 1) / Z3,
           2 := 1 / Z3 * 1 * 5 * exp (- 2) / Z3)))"
  by (simp add: partition_functions_def pf_body_def pf_loop.simps pf_ion_def pf_sum.simps
        levels_def levels_loop.simps get_boltzmann_populations_def boltzmann_loop.simps
        three_level_globals_def ladder_globals_def ladder_ion_def cell0_def store0_def
        Let_def NEBULARMODE_TR_def Z3_def)

lemma Z3_gt_one: "1 < Z3"
proof -
  have "0 < exp (- 1 :: real)" "0 < exp (- 2 :: real)" by simp_all
  then show ?thesis unfolding Z3_def by linarith
qed

lemma twice_divided_differs:
  assumes "1 < z" "0 < (c::real)"
  shows "1 / z * 1 * c / z \<noteq> c / z"
proof
  assume "1 / z * 1 * c / z = c / z"
  with assms have "c = c * z" by (simp add: field_simps)
  with assms show False by simp
qed

lemma twice_divided_sum:
  assumes "1 < (z::real)" "z = 1 + a + b"
  shows "1 / z + 1 / z * 1 * a / z + 1 / z * 1 * b / z \<noteq> 1"
proof
  assume "1 / z + 1 / z * 1 * a / z + 1 / z * 1 * b / z = 1"
  with assms(1) have "z + a + b = z * z" by (simp add: field_simps)
  with assms(2) have "(z - 1) * (z - 1) = 0" by (simp add: algebra_simps)
  with assms(1) show False by simp
qed

text \<open>
  Claim C8 says that for the three-level ion (weights 1, 3, 5; energies 0, 1, 2; \<open>k = 1\<close>,
  \<open>T = 1\<close>, weight 1) the partition function is \<open>Z = 1 + 3 e\<^sup>-\<^sup>1 + 5 e\<^sup>-\<^sup>2\<close> and the level
  populations are \<open>1 / Z\<close>, \<open>3 e\<^sup>-\<^sup>1 / Z\<close>, \<open>5 e\<^sup>-\<^sup>2 / Z\<close>, which sum to 1.  The code
  computes that partition function and the ground population \<open>1 / Z\<close>, but
  \<open>get_boltzmann_populations\<close> multiplies every excited level by the ground population
  \<open>g\<^sub>0 / z\<close> and divides by \<open>z\<close> again: the excited populations are
  \<open>3 e\<^sup>-\<^sup>1 / Z\<^sup>2\<close> and \<open>5 e\<^sup>-\<^sup>2 / Z\<^sup>2\<close>, not the claimed values, and the three
  populations do not sum to 1.
\<close>

theorem three_level_excited_divided_twice:
  "\<exists>h'. partition_functions three_level_globals (cell0 1 1 1) NEBULARMODE_TR store0 = Inr h'
     \<and> h' 0 0 = Z3
     \<and> h' 2 0 = 1 / Z3
     \<and> h' 2 1 = 3 * exp (- 1) / Z3\<^sup>2
     \<and> h' 2 2 = 5 * exp (- 2) / Z3\<^sup>2
     \<and> h' 2 1 \<noteq> 3 * exp (- 1) / Z3
     \<and> h' 2 2 \<noteq> 5 * exp (- 2) / Z3
     \<and> h' 2 0 + h' 2 1 + h' 2 2 \<noteq> 1"
proof -
  have a: "1 / Z3 * 1 * (3 * exp (- 1)) / Z3 \<noteq> 3 * exp (- 1) / Z3"
    by (rule twice_divided_differs [OF Z3_gt_one]) simp
  have b: "1 / Z3 * 1 * (5 * exp (- 2)) / Z3 \<noteq> 5 * exp (- 2) / Z3"
    by (rule twice_divided_differs [OF Z3_gt_one]) simp
  have c: "1 / Z3 + 1 / Z3 * 1 * (3 * exp (- 1)) / Z3 + 1 / Z3 * 1 * (5 * exp (- 2)) / Z3 \<noteq> 1"
    by (rule twice_divided_sum [OF Z3_gt_one]) (simp add: Z3_def)
  show ?thesis
    using a b c by (simp add: three_level_run power2_eq_square mult.assoc)
qed


subsection \<open>Rebuilding the superlevels\<close>

lemma lte_pops_loop_norm:
  "superlevel_norm (lte_pops_loop G nion kt ground n mplasma) = superlevel_norm mplasma"
  by (induction G nion kt ground n mplasma rule: lte_pops_loop.induct)
     (subst lte_pops_loop.simps, simp)

lemma norm_loop_lte_pops:
  "superlevel_lte_pops (norm_loop G nion ground n mplasma) = superlevel_lte_pops mplasma"
  by (induction G nion ground n mplasma rule: norm_loop.induct)
     (subst norm_loop.simps, simp)

lemma norm_loop_threshold:
  "superlevel_threshold (norm_loop G nion ground n mplasma) = superlevel_threshold mplasma"
  by (induction G nion ground n mplasma rule: norm_loop.induct)
     (subst norm_loop.simps, simp)

lemma norm_loop_adds:
  "superlevel_norm (norm_loop G nion ground n mplasma) nion
     = superlevel_norm mplasma nion
       + (\<Sum>k = n..<ground + ion_nlte (ion G nion).
            superlevel_lte_pops mplasma k / config_g (config G k))"
proof (induction G nion ground n mplasma rule: norm_loop.induct)
  case (1 G nion ground n mplasma)
  show ?case
  proof (cases "n < ground + ion_nlte (ion G nion)")
    case True
    then have split: "{n..<ground + ion_nlte (ion G nion)}
                 = insert n {n + 1..<ground + ion_nlte (ion G nion)}"
      by auto
    from True show ?thesis
      by (subst norm_loop.simps) (simp add: 1 split)
  next
    case False
    then show ?thesis
      by (subst norm_loop.simps) simp
  qed
qed

lemma setup_cell_adds_to_norm:
  "superlevel_norm (setup_cell G h plasmamain nion nplasma macromain nplasma) nion
     = superlevel_norm (macromain nplasma) nion
       + (\<Sum>k = superlevel_threshold (setup_cell G h plasmamain nion nplasma macromain nplasma) nion
               ..< ion_first_nlte_level (ion G nion) + ion_nlte (ion G nion).
            superlevel_lte_pops (setup_cell G h plasmamain nion nplasma macromain nplasma) k
              / config_g (config G k))"
  by (simp add: setup_cell_def Let_def norm_loop_adds norm_loop_lte_pops norm_loop_threshold
        lte_pops_loop_norm)


lemmas setup_simps = setup_superlevels_def setup_ions_loop.simps setup_cells_loop.simps
  setup_cell_def lte_pops_loop.simps norm_loop.simps get_superlevel_threshold_def
  threshold_loop.simps Let_def LTE_DEP_FRAC_def

lemma first_rebuild_eval:
  "first_rebuild = (\<lambda>c. macro0)(0 :=
      \<lparr>superlevel_lte_pops = (\<lambda>n. 0)(0 := 1, 1 := exp (- 1), 2 := exp (- 2)),
       superlevel_threshold = (\<lambda>i. 0)(0 := 2),
       superlevel_norm = (\<lambda>i. 0)(0 := exp (- 2) / 2)\<rparr>)"
  by (simp add: first_rebuild_def setup_simps ladder_globals_def ladder_ion_def cell0_def
        macro0_def store0_def)

lemma second_rebuild_eval:
  "second_rebuild = (\<lambda>c. macro0)(0 :=
      \<lparr>superlevel_lte_pops = (\<lambda>n. 0)(0 := 1, 1 := exp (- 1), 2 := exp (- 2)),
       superlevel_threshold = (\<lambda>i. 0)(0 := 2),
       superlevel_norm = (\<lambda>i. 0)(0 := exp (- 2))\<rparr>)"
  by (simp add: second_rebuild_def first_rebuild_eval setup_simps ladder_globals_def ladder_ion_def cell0_def
        macro0_def store0_def store_lte3_def)

text \<open>
  Claim C1 says that after every call of \<open>setup_superlevels\<close> the stored
  \<open>superlevel_norm[ion]\<close> is exactly the sum of \<open>lte_pop[n] / g_n\<close> from the stored
  threshold to the topmost level, whatever it held before.  The code adds that sum to the
  old value (\<open>setup_cell_adds_to_norm\<close>).  After the second of two successive rebuilds
  of the three-level ladder the threshold is 2 and the sum is \<open>e\<^sup>-\<^sup>2 / 2\<close>, but the
  stored norm is \<open>e\<^sup>-\<^sup>2\<close>: the sum of this rebuild on top of the norm of the first.
\<close>

theorem second_rebuild_keeps_previous_sum:
  "superlevel_threshold (second_rebuild 0) 0 = 2
   \<and> (\<Sum>n = superlevel_threshold (second_rebuild 0) 0..2.
        superlevel_lte_pops (second_rebuild 0) n
          / config_g (config (ladder_globals 3 (\<lambda>n. 2) (\<lambda>n. real_of_int n) 1 1) n))
       = exp (- 2) / 2
   \<and> superlevel_norm (second_rebuild 0) 0 = exp (- 2)
   \<and> superlevel_norm (second_rebuild 0) 0 = superlevel_norm (first_rebuild 0) 0 + exp (- 2) / 2
   \<and> superlevel_norm (second_rebuild 0) 0 \<noteq> exp (- 2) / 2"
  by (simp add: second_rebuild_eval first_rebuild_eval ladder_globals_def)


subsection \<open>LTE populations of an element\<close>

lemma matom_ions_loop_other:
  "a \<noteq> p_levden xd \<Longrightarrow> a \<noteq> levden_array \<Longrightarrow>
   matom_ions_loop G levden_array nelem xd nh nion h a = h a"
  by (induction G levden_array nelem xd nh nion h rule: matom_ions_loop.induct)
     (subst matom_ions_loop.simps, simp add: Let_def get_boltzmann_other)

lemma matom_overwrites_partition:
  assumes "0 \<le> nion" "nion < nions G"
    and "p_levden pdum \<noteq> p_partition x" "levden_array \<noteq> p_partition x"
    and "p_density x \<noteq> p_partition x"
  shows "\<exists>h'. get_lte_matom_populations G solver pdum levden_array nelem x h = Inr h'
           \<and> h' (p_partition x) nion = pf_ion G 1 (BOLTZMANN G * p_t_r x) nion"
proof -
  define xd where "xd = copy_plasma x pdum"
  have f: "p_partition xd = p_partition x" "p_density xd = p_density x"
    "p_levden xd = p_levden pdum" "p_t_r xd = p_t_r x"
    by (simp_all add: xd_def copy_plasma_def)
  define h1 where "h1 = pf_loop G xd 1 (BOLTZMANN G * p_t_r x) 0 h"
  define h2 where "h2 = levels_loop G xd (p_t_r x) 1 0 h1"
  define h3 where "h3 = saha solver xd (p_ne xd) (p_t_r xd) h2"
  define h4 where "h4 = matom_ions_loop G levden_array nelem xd (p_rho x * rho2nh G)
                          (ele_firstion (ele G nelem)) h3"
  have run: "get_lte_matom_populations G solver pdum levden_array nelem x h = Inr h4"
    by (simp add: get_lte_matom_populations_def Let_def partition_functions_def pf_body_def
          levels_def mode_defs xd_def [symmetric] f h1_def h2_def h3_def h4_def)
  have "h1 (p_partition x) nion = pf_ion G 1 (BOLTZMANN G * p_t_r x) nion"
    unfolding h1_def using pf_loop_at [OF assms(1,2), of xd] by (simp add: f)
  moreover have "h2 (p_partition x) = h1 (p_partition x)"
    unfolding h2_def using assms(3) by (simp add: levels_loop_other f)
  moreover have "h3 (p_partition x) = h2 (p_partition x)"
    unfolding h3_def saha_def using assms(5) by (simp add: f)
  moreover have "h4 (p_partition x) = h3 (p_partition x)"
    unfolding h4_def using assms(3,4) by (simp add: matom_ions_loop_other f)
  ultimately show ?thesis using run by simp
qed

lemma live_store_run:
  "partition_functions two_level_globals (cell0 1 1 (1 / 2)) NEBULARMODE_ML93
     (store0(1 := (\<lambda>n. 1))) = Inr live_store"
  by (simp add: live_store_def run_simps
        two_level_globals_def ladder_globals_def ladder_ion_def cell0_def store0_def)

lemma live_store_partition: "live_store 0 0 = 1 + 3 / 2 * exp (- 1)"
  by (simp add: live_store_def run_simps
        two_level_globals_def ladder_globals_def ladder_ion_def cell0_def store0_def)

lemma matom_run:
  "\<exists>h'. get_lte_matom_populations two_level_globals unit_solver pdum0 4 0 (cell0 1 1 (1 / 2))
     live_store = Inr h' \<and> h' 0 0 = 1 + 3 * exp (- 1)"
  by (simp add: live_store_def run_simps unit_solver_def pdum0_def
        two_level_globals_def ladder_globals_def ladder_ion_def cell0_def store0_def)

text \<open>
  Claim C2 says that \<open>get_lte_matom_populations\<close> leaves the live cell untouched and
  writes only the caller's output array.  The dummy cell made by \<open>copy_plasma\<close>
  shares the live cell's partition array, and \<open>partition_functions\<close> in mode 0 writes
  through it (\<open>matom_overwrites_partition\<close>).  For the live cell above, whose partition
  function of ion 0 is \<open>1 + (3/2) e\<^sup>-\<^sup>1\<close> from its mode-2 update, the call returns
  with \<open>1 + 3 e\<^sup>-\<^sup>1\<close> in its place.
\<close>

theorem lte_populations_overwrite_live_partition:
  "partition_functions two_level_globals (cell0 1 1 (1 / 2)) NEBULARMODE_ML93
     (store0(1 := (\<lambda>n. 1))) = Inr live_store
   \<and> (\<exists>h'. get_lte_matom_populations two_level_globals unit_solver pdum0 4 0 (cell0 1 1 (1 / 2))
           live_store = Inr h'
     \<and> live_store (p_partition (cell0 1 1 (1 / 2))) 0 = 1 + 3 / 2 * exp (- 1)
     \<and> h' (p_partition (cell0 1 1 (1 / 2))) 0 = 1 + 3 * exp (- 1)
     \<and> h' (p_partition (cell0 1 1 (1 / 2))) \<noteq> live_store (p_partition (cell0 1 1 (1 / 2))))"
proof -
  obtain h' where run: "get_lte_matom_populations two_level_globals unit_solver pdum0 4 0
      (cell0 1 1 (1 / 2)) live_store = Inr h'" and v: "h' 0 0 = 1 + 3 * exp (- 1)"
    using matom_run by blast
  have l: "live_store 0 0 = 1 + 3 / 2 * exp (- 1)"
    by (rule live_store_partition)
  have "h' 0 0 \<noteq> live_store 0 0"
    using v l by simp
  then have "h' 0 \<noteq> live_store 0" by auto
  with run v l live_store_run show ?thesis by (simp add: cell0_def)
qed


end
